theory Spec2Isabelle
  imports Main "HOL-Library.Sublist"
begin

section \<open>Packaging review: the risk step (src/risk.py, src/schemas.py)\<close>

text \<open>
  The risk step maps an \<open>ExtractedBrief\<close> to a \<open>ReviewDecision\<close> by fixed rules.
  Python's \<open>str\<close> is modelled as \<open>string\<close>; a \<open>char\<close> stands for one code point in
  the range U+0000 to U+00FF, on which \<open>str.lower\<close> and \<open>str.strip\<close> are given below
  exactly as CPython computes them. A \<open>Literal["low", "medium", "high"]\<close> field is a
  \<open>str\<close> at run time and is kept as a \<open>string\<close>; the check pydantic makes when a
  \<open>ReviewDecision\<close> is built is the one branch of the step that can raise.
\<close>

subsection \<open>Data shapes (src/schemas.py)\<close>

record ClaimObject =
  raw_text :: string
  normalized_type :: string
  risk_keywords :: "string list"
  evidence_hint :: string
  claim_severity :: string

record Issue =
  issue_type :: string
  message :: string
  issue_severity :: string

record ExtractedBrief =
  product_name :: string
  age_grade :: string
  markets :: "string list"
  claims :: "ClaimObject list"
  materials :: "string list"
  licensed :: bool
  brief_notes :: "string option"
  missing_info :: "string list"
  clarifying_questions :: "string list"
  issues :: "Issue list"

record ReviewDecision =
  requires_quality_review :: bool
  requires_legal_review :: bool
  requires_licensing_review :: bool
  requires_sustainability_review :: bool
  risk_flags :: "string list"
  risk_level :: string
  routing_notes :: "string list"
  human_approval_required :: bool

datatype error = ValidationError

text \<open>
  Building a \<open>ReviewDecision\<close> validates \<open>risk_level\<close> against its \<open>Literal\<close>
  (schemas.py, line 60); the other fields are typed \<open>bool\<close> and \<open>List[str]\<close> and the
  values passed already have these types.
\<close>

definition ReviewDecision_init ::
  "bool \<Rightarrow> bool \<Rightarrow> bool \<Rightarrow> bool \<Rightarrow> string list \<Rightarrow> string \<Rightarrow> string list \<Rightarrow> bool
     \<Rightarrow> error + ReviewDecision" where
  "ReviewDecision_init quality legal licensing sustainability flags level notes approval =
     (if level \<in> set [''low'', ''medium'', ''high'']
      then Inr \<lparr>requires_quality_review = quality,
                requires_legal_review = legal,
                requires_licensing_review = licensing,
                requires_sustainability_review = sustainability,
                risk_flags = flags,
                risk_level = level,
                routing_notes = notes,
                human_approval_required = approval\<rparr>
      else Inl ValidationError)"

subsection \<open>The string operations the rules use\<close>

text \<open>\<open>str.lower\<close> on U+0000..U+00FF: A..Z, and the Latin-1 capitals U+00C0..U+00DE
  without the multiplication sign U+00D7, move up by 32; every other code point stays.\<close>

definition lower_char :: "char \<Rightarrow> char" where
  "lower_char c =
     (let n = (of_char c :: nat)
      in if (65 \<le> n \<and> n \<le> 90) \<or> (192 \<le> n \<and> n \<le> 222 \<and> n \<noteq> 215)
         then char_of (n + 32) else c)"

definition lower :: "string \<Rightarrow> string" where
  "lower s = map lower_char s"

text \<open>\<open>str.isspace\<close> on U+0000..U+00FF: TAB..CR, FS..US, space, NEL and NBSP.\<close>

definition isspace :: "char \<Rightarrow> bool" where
  "isspace c =
     (let n = (of_char c :: nat)
      in (9 \<le> n \<and> n \<le> 13) \<or> (28 \<le> n \<and> n \<le> 32) \<or> n = 133 \<or> n = 160)"

text \<open>\<open>str.strip()\<close> drops the white space at both ends.\<close>

definition strip :: "string \<Rightarrow> string" where
  "strip s = rev (dropWhile isspace (rev (dropWhile isspace s)))"

text \<open>\<open>x in s\<close> for two strings: \<open>x\<close> starts at some position of \<open>s\<close>.\<close>

fun startswith :: "string \<Rightarrow> string \<Rightarrow> bool" where
  "startswith s [] = True"
| "startswith [] (c # x) = False"
| "startswith (d # s) (c # x) = (d = c \<and> startswith s x)"

fun str_contains :: "string \<Rightarrow> string \<Rightarrow> bool" where
  "str_contains [] x = (x = [])"
| "str_contains (d # s) x = (startswith (d # s) x \<or> str_contains s x)"

subsection \<open>The rules (src/risk.py)\<close>

definition MATERIAL_PLASTIC :: "string list" where
  "MATERIAL_PLASTIC = [''plastic'', ''pvc'', ''blister'']"

definition UNDER_3_INDICATORS :: "string list" where
  "UNDER_3_INDICATORS = [''0'', ''1'', ''2'', ''18m'', ''24m'', ''under 3'', ''under three'']"

definition LEGAL_CLAIM_TYPES :: "string set" where
  "LEGAL_CLAIM_TYPES =
     {''CHEMICAL_SAFETY_CLAIM'', ''SUSTAINABILITY_CLAIM'', ''PERFORMANCE_CLAIM'', ''SAFETY_CLAIM''}"

text \<open>\<open>_age_under_3\<close>; \<open>age_grade or ""\<close> is \<open>age_grade\<close> itself on a \<open>str\<close>.\<close>

definition age_under_3 :: "string \<Rightarrow> bool" where
  "age_under_3 grade =
     (let ag = strip (lower grade)
      in list_ex (\<lambda>x. str_contains ag x) UNDER_3_INDICATORS)"

text \<open>\<open>_plastic_present\<close>; \<open>m or ""\<close> is \<open>m\<close> itself on a \<open>str\<close>, and the test is
  membership in the list, so equality with an entry.\<close>

definition plastic_present :: "string list \<Rightarrow> bool" where
  "plastic_present ms = list_ex (\<lambda>m. strip (lower m) \<in> set MATERIAL_PLASTIC) ms"

text \<open>\<open>_claims_need_evidence\<close>: the loop returns at the first claim that matches.\<close>

fun claims_need_evidence :: "ClaimObject list \<Rightarrow> bool" where
  "claims_need_evidence [] = False"
| "claims_need_evidence (c # cs) =
     (if normalized_type c \<in> LEGAL_CLAIM_TYPES \<or> claim_severity c = ''high''
      then True else claims_need_evidence cs)"

text \<open>\<open>_high_severity_issues\<close>: some issue has the severity "high".\<close>

definition high_severity_issues :: "Issue list \<Rightarrow> bool" where
  "high_severity_issues iss = list_ex (\<lambda>i. issue_severity i = ''high'') iss"

text \<open>The local variables of \<open>classify_risk\<close> that its five steps update.\<close>

record locals =
  quality :: bool
  legal :: bool
  licensing :: bool
  sustainability :: bool
  flags :: "string list"
  notes_out :: "string list"

definition classify_risk :: "ExtractedBrief \<Rightarrow> error + ReviewDecision" where
  "classify_risk brief =
     (let s0 = \<lparr>quality = False, legal = False, licensing = False, sustainability = False,
                flags = [], notes_out = []\<rparr>;
          s1 = (if age_under_3 (age_grade brief)
                then s0\<lparr>quality := True,
                        flags := flags s0 @ [''under_3''],
                        notes_out := notes_out s0 @ [''Age grade under 3: quality review required.'']\<rparr>
                else s0);
          s2 = (if licensed brief
                then s1\<lparr>licensing := True,
                        flags := flags s1 @ [''licensed_brand''],
                        notes_out := notes_out s1 @ [''Licensed product: licensing review required.'']\<rparr>
                else s1);
          s3 = (if claims_need_evidence (claims brief)
                then s2\<lparr>legal := True,
                        flags := flags s2 @ [''claims_need_evidence''],
                        notes_out := notes_out s2 @ [''Marketing claims require legal/evidence review.'']\<rparr>
                else s2);
          s4 = (if plastic_present (materials brief)
                then s3\<lparr>sustainability := True,
                        flags := flags s3 @ [''plastic_present''],
                        notes_out := notes_out s3 @
                          [''Plastic/PVC/blister: sustainability review recommended.'']\<rparr>
                else s3);
          s5 = (if issues brief \<noteq> [] \<and> high_severity_issues (issues brief)
                then s4\<lparr>flags := flags s4 @ [''high_severity_issues''],
                        notes_out := notes_out s4 @
                          [''High-severity issues from brief require attention.'']\<rparr>
                else s4);
          approval = (''under_3'' \<in> set (flags s5) \<or> ''licensed_brand'' \<in> set (flags s5)
                        \<or> ''claims_need_evidence'' \<in> set (flags s5));
          n_flags = length (flags s5);
          level = (if ''under_3'' \<in> set (flags s5) \<or> ''licensed_brand'' \<in> set (flags s5)
                   then ''high''
                   else if n_flags \<ge> 1 then ''medium''
                   else ''low'')
      in ReviewDecision_init (quality s5) (legal s5) (licensing s5) (sustainability s5)
           (flags s5) level (notes_out s5) approval)"

subsection \<open>A call of the risk step, with the module's objects as state\<close>










subsection \<open>The briefs of tests/test_golden_cases.py, and some more\<close>

definition golden_high :: ExtractedBrief where
  "golden_high =
     \<lparr>product_name = ''Disney Junior Wooden Blocks'',
      age_grade = ''18m+'',
      markets = [''US'', ''UK'', ''AU''],
      claims =
        [\<lparr>raw_text = ''Non-toxic'', normalized_type = ''CHEMICAL_SAFETY_CLAIM'',
          risk_keywords = [''non-toxic''], evidence_hint = [], claim_severity = ''high''\<rparr>,
         \<lparr>raw_text = ''BPA-free'', normalized_type = ''CHEMICAL_SAFETY_CLAIM'',
          risk_keywords = [''bpa''], evidence_hint = [], claim_severity = ''high''\<rparr>],
      materials = [''wood'', ''plastic'', ''cardboard''],
      licensed = True,
      brief_notes = Some [],
      missing_info = [],
      clarifying_questions = [],
      issues = []\<rparr>"

definition golden_low :: ExtractedBrief where
  "golden_low =
     \<lparr>product_name = ''Classic Building Bricks Set'',
      age_grade = ''5+'',
      markets = [''US'', ''CA''],
      claims =
        [\<lparr>raw_text = ''Compatible with major brands'', normalized_type = ''OTHER_CLAIM'',
          risk_keywords = [], evidence_hint = [], claim_severity = ''low''\<rparr>],
      materials = [''cardboard''],
      licensed = False,
      brief_notes = Some [],
      missing_info = [],
      clarifying_questions = [],
      issues = []\<rparr>"

definition golden_medium :: ExtractedBrief where
  "golden_medium =
     \<lparr>product_name = ''Eco Stacking Cups'',
      age_grade = ''3+'',
      markets = [''EU'', ''UK''],
      claims =
        [\<lparr>raw_text = ''Recyclable'', normalized_type = ''SUSTAINABILITY_CLAIM'',
          risk_keywords = [''recyclable''], evidence_hint = [], claim_severity = ''medium''\<rparr>,
         \<lparr>raw_text = ''Eco-friendly packaging'', normalized_type = ''SUSTAINABILITY_CLAIM'',
          risk_keywords = [''eco-friendly''], evidence_hint = [],
          claim_severity = ''medium''\<rparr>],
      materials = [''plastic'', ''cardboard'', ''blister''],
      licensed = False,
      brief_notes = Some [],
      missing_info = [],
      clarifying_questions = [],
      issues = []\<rparr>"

text \<open>A brief with every field empty, and an issue of high severity.\<close>

definition empty_brief :: ExtractedBrief where
  "empty_brief =
     \<lparr>product_name = [], age_grade = [], markets = [], claims = [], materials = [],
      licensed = False, brief_notes = None, missing_info = [], clarifying_questions = [],
      issues = []\<rparr>"

definition high_issue :: Issue where
  "high_issue =
     \<lparr>issue_type = ''MISSING_INFO'', message = ''No age grade given'',
      issue_severity = ''high''\<rparr>"

section \<open>Properties of the risk step\<close>

subsection \<open>Substrings, white space and the helper predicates\<close>

lemma startswith_iff: "startswith s x \<longleftrightarrow> (\<exists>q. s = x @ q)"
  by (induction s x rule: startswith.induct) auto

lemma str_contains_iff: "str_contains s x \<longleftrightarrow> (\<exists>p q. s = p @ x @ q)"
proof (induction s)
  case Nil
  then show ?case by simp
next
  case (Cons d s)
  show ?case
  proof
    assume "str_contains (d # s) x"
    then consider "startswith (d # s) x" | "str_contains s x" by auto
    then show "\<exists>p q. d # s = p @ x @ q"
    proof cases
      case 1
      then obtain q where "d # s = x @ q" by (auto simp: startswith_iff)
      then have "d # s = [] @ x @ q" by simp
      then show ?thesis by blast
    next
      case 2
      then obtain p q where "s = p @ x @ q" using Cons.IH by blast
      then have "d # s = (d # p) @ x @ q" by simp
      then show ?thesis by blast
    qed
  next
    assume "\<exists>p q. d # s = p @ x @ q"
    then obtain p q where pq: "d # s = p @ x @ q" by blast
    show "str_contains (d # s) x"
    proof (cases p)
      case Nil
      with pq have "startswith (d # s) x" by (auto simp: startswith_iff)
      then show ?thesis by simp
    next
      case (Cons e p')
      with pq have "s = p' @ x @ q" by simp
      then have "str_contains s x" using Cons.IH by blast
      then show ?thesis by simp
    qed
  qed
qed

lemma str_contains_single: "str_contains s [c] \<longleftrightarrow> c \<in> set s"
  by (induction s) auto

lemma claims_need_evidence_iff:
  "claims_need_evidence cs \<longleftrightarrow>
     (\<exists>c \<in> set cs. normalized_type c \<in> LEGAL_CLAIM_TYPES \<or> claim_severity c = ''high'')"
  by (induction cs) auto

lemma dropWhile_keeps: "x \<in> set xs \<Longrightarrow> \<not> P x \<Longrightarrow> x \<in> set (dropWhile P xs)"
  by (induction xs) auto

lemma strip_keeps: "c \<in> set s \<Longrightarrow> \<not> isspace c \<Longrightarrow> c \<in> set (strip s)"
  by (simp add: strip_def dropWhile_keeps)

lemma lower_char_digit_2: "lower_char (CHR ''2'') = CHR ''2''"
  by (simp add: lower_char_def)

lemma not_isspace_digit_2: "\<not> isspace (CHR ''2'')"
  by (simp add: isspace_def)

lemma digit_2_survives: "CHR ''2'' \<in> set s \<Longrightarrow> CHR ''2'' \<in> set (strip (lower s))"
proof -
  assume "CHR ''2'' \<in> set s"
  then have "lower_char (CHR ''2'') \<in> set (lower s)" by (simp add: lower_def)
  then have "CHR ''2'' \<in> set (lower s)" by (simp add: lower_char_digit_2)
  then show ?thesis by (rule strip_keeps) (rule not_isspace_digit_2)
qed

subsection \<open>The decision in closed form\<close>

text \<open>The five steps and the derived fields, with the flag and note texts left open: each
  step sets its boolean and appends its flag and its note, nothing else.\<close>

lemma steps_closed:
  fixes f1 f2 f3 f4 f5 n1 n2 n3 n4 n5 :: string
  assumes "distinct [f1, f2, f3, f4, f5]"
  shows
  "(let s0 = \<lparr>quality = False, legal = False, licensing = False, sustainability = False,
                flags = [], notes_out = []\<rparr>;
        s1 = (if U then s0\<lparr>quality := True, flags := flags s0 @ [f1],
                               notes_out := notes_out s0 @ [n1]\<rparr> else s0);
        s2 = (if L then s1\<lparr>licensing := True, flags := flags s1 @ [f2],
                               notes_out := notes_out s1 @ [n2]\<rparr> else s1);
        s3 = (if C then s2\<lparr>legal := True, flags := flags s2 @ [f3],
                               notes_out := notes_out s2 @ [n3]\<rparr> else s2);
        s4 = (if P then s3\<lparr>sustainability := True, flags := flags s3 @ [f4],
                               notes_out := notes_out s3 @ [n4]\<rparr> else s3);
        s5 = (if H then s4\<lparr>flags := flags s4 @ [f5],
                               notes_out := notes_out s4 @ [n5]\<rparr> else s4);
        approval = (f1 \<in> set (flags s5) \<or> f2 \<in> set (flags s5) \<or> f3 \<in> set (flags s5));
        n_flags = length (flags s5);
        level = (if f1 \<in> set (flags s5) \<or> f2 \<in> set (flags s5) then ''high''
                 else if n_flags \<ge> 1 then ''medium'' else ''low'')
    in ReviewDecision_init (quality s5) (legal s5) (licensing s5) (sustainability s5)
         (flags s5) level (notes_out s5) approval) =
   Inr \<lparr>requires_quality_review = U,
          requires_legal_review = C,
          requires_licensing_review = L,
          requires_sustainability_review = P,
          risk_flags = (if U then [f1] else []) @ (if L then [f2] else []) @
            (if C then [f3] else []) @ (if P then [f4] else []) @ (if H then [f5] else []),
          risk_level = (if U \<or> L then ''high''
                        else if C \<or> P \<or> H then ''medium'' else ''low''),
          routing_notes = (if U then [n1] else []) @ (if L then [n2] else []) @
            (if C then [n3] else []) @ (if P then [n4] else []) @ (if H then [n5] else []),
          human_approval_required = (U \<or> L \<or> C)\<rparr>"
  using assms
  by (cases U; cases L; cases C; cases P; cases H;
      simp add: Let_def ReviewDecision_init_def)

text \<open>The guard \<open>brief.issues and ...\<close> adds nothing: an empty list has no issue of high
  severity.\<close>

lemma issues_guard:
  "(issues b \<noteq> [] \<and> high_severity_issues (issues b)) = high_severity_issues (issues b)"
  by (auto simp: high_severity_issues_def)

text \<open>\<open>classify_risk\<close> never raises, and each field of its decision is a fixed function
  of the five tests.\<close>

lemma classify_risk_closed:
  "classify_risk b =
     Inr \<lparr>requires_quality_review = age_under_3 (age_grade b),
          requires_legal_review = claims_need_evidence (claims b),
          requires_licensing_review = licensed b,
          requires_sustainability_review = plastic_present (materials b),
          risk_flags =
            (if age_under_3 (age_grade b) then [''under_3''] else []) @
            (if licensed b then [''licensed_brand''] else []) @
            (if claims_need_evidence (claims b) then [''claims_need_evidence''] else []) @
            (if plastic_present (materials b) then [''plastic_present''] else []) @
            (if high_severity_issues (issues b) then [''high_severity_issues''] else []),
          risk_level =
            (if age_under_3 (age_grade b) \<or> licensed b then ''high''
             else if claims_need_evidence (claims b) \<or> plastic_present (materials b)
                     \<or> high_severity_issues (issues b) then ''medium''
             else ''low''),
          routing_notes =
            (if age_under_3 (age_grade b)
             then [''Age grade under 3: quality review required.''] else []) @
            (if licensed b then [''Licensed product: licensing review required.''] else []) @
            (if claims_need_evidence (claims b)
             then [''Marketing claims require legal/evidence review.''] else []) @
            (if plastic_present (materials b)
             then [''Plastic/PVC/blister: sustainability review recommended.''] else []) @
            (if high_severity_issues (issues b)
             then [''High-severity issues from brief require attention.''] else []),
          human_approval_required =
            (age_under_3 (age_grade b) \<or> licensed b \<or> claims_need_evidence (claims b))\<rparr>"
  unfolding classify_risk_def issues_guard
  by (rule steps_closed) simp

subsection \<open>What the five tests and the decision say\<close>

text \<open>Each test of risk.py, with its constant written out.\<close>

lemma age_under_3_iff:
  "age_under_3 g \<longleftrightarrow>
     (\<exists>x \<in> set [''0'', ''1'', ''2'', ''18m'', ''24m'', ''under 3'', ''under three''].
        \<exists>p q. strip (lower g) = p @ x @ q)"
  unfolding age_under_3_def Let_def UNDER_3_INDICATORS_def list_ex_iff str_contains_iff ..

lemma plastic_present_iff:
  "plastic_present ms \<longleftrightarrow>
     (\<exists>m \<in> set ms. strip (lower m) = ''plastic'' \<or> strip (lower m) = ''pvc''
        \<or> strip (lower m) = ''blister'')"
  unfolding plastic_present_def MATERIAL_PLASTIC_def list_ex_iff by simp

lemma high_severity_issues_iff:
  "high_severity_issues iss \<longleftrightarrow> (\<exists>i \<in> set iss. issue_severity i = ''high'')"
  unfolding high_severity_issues_def list_ex_iff ..

lemma claims_need_evidence_iff':
  "claims_need_evidence cs \<longleftrightarrow>
     (\<exists>c \<in> set cs.
        normalized_type c \<in> {''CHEMICAL_SAFETY_CLAIM'', ''SUSTAINABILITY_CLAIM'',
                              ''PERFORMANCE_CLAIM'', ''SAFETY_CLAIM''}
        \<or> claim_severity c = ''high'')"
  unfolding claims_need_evidence_iff LEGAL_CLAIM_TYPES_def ..

text \<open>Which flags a chain of five steps holds, when the five flag names differ.\<close>

lemma flag_chain_mem:
  fixes f1 f2 f3 f4 f5 :: string and U L C P H :: bool
  assumes "distinct [f1, f2, f3, f4, f5]"
  defines "F \<equiv> (if U then [f1] else []) @ (if L then [f2] else []) @
            (if C then [f3] else []) @ (if P then [f4] else []) @ (if H then [f5] else [])"
  shows "f1 \<in> set F \<longleftrightarrow> U" "f2 \<in> set F \<longleftrightarrow> L" "f3 \<in> set F \<longleftrightarrow> C"
    "f4 \<in> set F \<longleftrightarrow> P" "f5 \<in> set F \<longleftrightarrow> H"
    "F = [] \<longleftrightarrow> \<not> (U \<or> L \<or> C \<or> P \<or> H)"
    "set F \<subseteq> {f1, f2, f3, f4, f5}"
  using assms by auto

text \<open>The decision field by field, in terms of the five tests.\<close>

lemma decision_facts:
  "\<exists>d. classify_risk b = Inr d \<and>
     requires_quality_review d = age_under_3 (age_grade b) \<and>
     requires_legal_review d = claims_need_evidence (claims b) \<and>
     requires_licensing_review d = licensed b \<and>
     requires_sustainability_review d = plastic_present (materials b) \<and>
     (''under_3'' \<in> set (risk_flags d) \<longleftrightarrow> age_under_3 (age_grade b)) \<and>
     (''licensed_brand'' \<in> set (risk_flags d) \<longleftrightarrow> licensed b) \<and>
     (''claims_need_evidence'' \<in> set (risk_flags d) \<longleftrightarrow> claims_need_evidence (claims b)) \<and>
     (''plastic_present'' \<in> set (risk_flags d) \<longleftrightarrow> plastic_present (materials b)) \<and>
     (''high_severity_issues'' \<in> set (risk_flags d) \<longleftrightarrow> high_severity_issues (issues b)) \<and>
     (risk_flags d = [] \<longleftrightarrow>
        \<not> (age_under_3 (age_grade b) \<or> licensed b \<or> claims_need_evidence (claims b)
           \<or> plastic_present (materials b) \<or> high_severity_issues (issues b))) \<and>
     set (risk_flags d) \<subseteq> {''under_3'', ''licensed_brand'', ''claims_need_evidence'',
                              ''plastic_present'', ''high_severity_issues''} \<and>
     risk_level d =
       (if age_under_3 (age_grade b) \<or> licensed b then ''high''
        else if claims_need_evidence (claims b) \<or> plastic_present (materials b)
                \<or> high_severity_issues (issues b) then ''medium''
        else ''low'') \<and>
     human_approval_required d =
       (age_under_3 (age_grade b) \<or> licensed b \<or> claims_need_evidence (claims b))"
proof -
  have dist: "distinct [''under_3'', ''licensed_brand'', ''claims_need_evidence'',
                        ''plastic_present'', ''high_severity_issues'']"
    by simp
  note m = flag_chain_mem [OF dist]
  show ?thesis
    unfolding classify_risk_closed
    by (intro exI conjI, rule refl) (simp_all only: ReviewDecision.simps m)
qed

subsection \<open>The golden cases\<close>

text \<open>The three decisions that tests/test_golden_cases.py asserts, computed in full.\<close>

lemma golden_high_decision:
  "classify_risk golden_high =
     Inr \<lparr>requires_quality_review = True, requires_legal_review = True,
          requires_licensing_review = True, requires_sustainability_review = True,
          risk_flags = [''under_3'', ''licensed_brand'', ''claims_need_evidence'',
                        ''plastic_present''],
          risk_level = ''high'',
          routing_notes =
            [''Age grade under 3: quality review required.'',
             ''Licensed product: licensing review required.'',
             ''Marketing claims require legal/evidence review.'',
             ''Plastic/PVC/blister: sustainability review recommended.''],
          human_approval_required = True\<rparr>"
  by code_simp

lemma golden_low_decision:
  "classify_risk golden_low =
     Inr \<lparr>requires_quality_review = False, requires_legal_review = False,
          requires_licensing_review = False, requires_sustainability_review = False,
          risk_flags = [], risk_level = ''low'', routing_notes = [],
          human_approval_required = False\<rparr>"
  by code_simp

lemma golden_medium_decision:
  "classify_risk golden_medium =
     Inr \<lparr>requires_quality_review = False, requires_legal_review = True,
          requires_licensing_review = False, requires_sustainability_review = True,
          risk_flags = [''claims_need_evidence'', ''plastic_present''],
          risk_level = ''medium'',
          routing_notes =
            [''Marketing claims require legal/evidence review.'',
             ''Plastic/PVC/blister: sustainability review recommended.''],
          human_approval_required = True\<rparr>"
  by code_simp

section \<open>The claims\<close>

subsection \<open>Plain logic used below\<close>

lemma not_in_pair_subset: "set F \<subseteq> {a, b} \<Longrightarrow> x \<noteq> a \<Longrightarrow> x \<noteq> b \<Longrightarrow> x \<notin> set F"
  by auto

lemma none_of_two: "\<forall>c \<in> A. \<not> Q c \<and> \<not> R c \<Longrightarrow> \<not> (\<exists>c \<in> A. Q c \<or> R c)"
  by blast

lemma none_of_one: "\<forall>c \<in> A. \<not> Q c \<Longrightarrow> \<not> (\<exists>c \<in> A. Q c)"
  by blast

lemma level_cases:
  fixes hi me lo lev :: string
  assumes "lev = (if U \<or> L then hi else if C \<or> P \<or> H then me else lo)"
    and "distinct [hi, me, lo]"
  shows "lev = hi \<longleftrightarrow> U \<or> L"
    and "lev = me \<longleftrightarrow> \<not> (U \<or> L) \<and> (U \<or> L \<or> C \<or> P \<or> H)"
    and "lev = lo \<longleftrightarrow> \<not> (U \<or> L) \<and> \<not> (U \<or> L \<or> C \<or> P \<or> H)"
  using assms by auto

lemma age_under_3_digit_2: "CHR ''2'' \<in> set g \<Longrightarrow> age_under_3 g"
proof -
  assume "CHR ''2'' \<in> set g"
  then have "CHR ''2'' \<in> set (strip (lower g))" by (rule digit_2_survives)
  then have "str_contains (strip (lower g)) ''2''" by (simp add: str_contains_single)
  then show ?thesis by (simp add: age_under_3_def UNDER_3_INDICATORS_def)
qed

lemma age_under_3_0_3: "age_under_3 ''0-3''"
  by code_simp

lemma not_plastic_plastics: "\<not> plastic_present [''plastics'']"
  by code_simp

lemma claims_need_evidence_other:
  "claims_need_evidence
     (map (\<lambda>c. if normalized_type c \<in> LEGAL_CLAIM_TYPES then c
               else c\<lparr>normalized_type := ''OTHER_CLAIM''\<rparr>) cs) =
   claims_need_evidence cs"
proof -
  have o: "''OTHER_CLAIM'' \<notin> LEGAL_CLAIM_TYPES" by (simp add: LEGAL_CLAIM_TYPES_def)
  show ?thesis by (induction cs) (simp_all add: o)
qed

lemmas claims_need_evidence_other' = claims_need_evidence_other [unfolded LEGAL_CLAIM_TYPES_def]

text \<open>Two briefs on which the five tests agree get the same decision.\<close>

lemma classify_risk_tests:
  assumes "age_under_3 (age_grade b1) = age_under_3 (age_grade b2)"
    and "licensed b1 = licensed b2"
    and "claims_need_evidence (claims b1) = claims_need_evidence (claims b2)"
    and "plastic_present (materials b1) = plastic_present (materials b2)"
    and "high_severity_issues (issues b1) = high_severity_issues (issues b2)"
  shows "classify_risk b1 = classify_risk b2"
  unfolding classify_risk_closed assms ..

subsection \<open>The shape of a chain of five steps\<close>

lemma subseq_step: "subseq xs ys \<Longrightarrow> subseq ((if c then [a] else []) @ xs) (a # ys)"
  by (simp add: list_emb_Cons)

lemma subseq_chain:
  "subseq ((if U then [a1] else []) @ (if L then [a2] else []) @ (if C then [a3] else []) @
           (if P then [a4] else []) @ (if H then [a5] else []))
     [a1, a2, a3, a4, a5]"
proof -
  have "subseq ((if H then [a5] else []) @ []) [a5]" by (rule subseq_step) simp
  then have "subseq (if H then [a5] else []) [a5]" by (simp only: append_Nil2)
  then show ?thesis by (intro subseq_step)
qed

lemma zip_chain:
  "zip ((if U then [a1] else []) @ (if L then [a2] else []) @ (if C then [a3] else []) @
        (if P then [a4] else []) @ (if H then [a5] else []))
       ((if U then [n1] else []) @ (if L then [n2] else []) @ (if C then [n3] else []) @
        (if P then [n4] else []) @ (if H then [n5] else [])) =
   (if U then [(a1, n1)] else []) @ (if L then [(a2, n2)] else []) @
   (if C then [(a3, n3)] else []) @ (if P then [(a4, n4)] else []) @
   (if H then [(a5, n5)] else [])"
  by simp

lemma length_chain:
  "length ((if U then [n1] else []) @ (if L then [n2] else []) @ (if C then [n3] else []) @
           (if P then [n4] else []) @ (if H then [n5] else [])) =
   length ((if U then [a1] else []) @ (if L then [a2] else []) @ (if C then [a3] else []) @
           (if P then [a4] else []) @ (if H then [a5] else []))"
  by simp

lemma distinct_chain:
  "distinct [a1, a2, a3, a4, a5] \<Longrightarrow>
   distinct ((if U then [a1] else []) @ (if L then [a2] else []) @ (if C then [a3] else []) @
             (if P then [a4] else []) @ (if H then [a5] else []))"
  by simp

text \<open>
  C1. For every brief the risk level is "high" exactly when the flag under_3 or the flag
  licensed_brand was raised, however many other flags there are; otherwise it is "medium"
  exactly when at least one flag was raised; otherwise it is "low". The two flags are raised
  exactly when the age test holds, respectively when the brief is licensed.
\<close>

theorem risk_level_by_flags:
  "\<exists>d. classify_risk b = Inr d \<and>
     (risk_level d = ''high'' \<longleftrightarrow>
        ''under_3'' \<in> set (risk_flags d) \<or> ''licensed_brand'' \<in> set (risk_flags d)) \<and>
     (risk_level d = ''medium'' \<longleftrightarrow>
        \<not> (''under_3'' \<in> set (risk_flags d) \<or> ''licensed_brand'' \<in> set (risk_flags d))
        \<and> risk_flags d \<noteq> []) \<and>
     (risk_level d = ''low'' \<longleftrightarrow>
        \<not> (''under_3'' \<in> set (risk_flags d) \<or> ''licensed_brand'' \<in> set (risk_flags d))
        \<and> risk_flags d = []) \<and>
     (''under_3'' \<in> set (risk_flags d) \<longleftrightarrow> age_under_3 (age_grade b)) \<and>
     (''licensed_brand'' \<in> set (risk_flags d) \<longleftrightarrow> licensed b)"
proof -
  obtain d where d: "classify_risk b = Inr d"
    and u: "''under_3'' \<in> set (risk_flags d) \<longleftrightarrow> age_under_3 (age_grade b)"
    and l: "''licensed_brand'' \<in> set (risk_flags d) \<longleftrightarrow> licensed b"
    and e: "risk_flags d = [] \<longleftrightarrow>
        \<not> (age_under_3 (age_grade b) \<or> licensed b \<or> claims_need_evidence (claims b)
           \<or> plastic_present (materials b) \<or> high_severity_issues (issues b))"
    and lv: "risk_level d =
       (if age_under_3 (age_grade b) \<or> licensed b then ''high''
        else if claims_need_evidence (claims b) \<or> plastic_present (materials b)
                \<or> high_severity_issues (issues b) then ''medium''
        else ''low'')"
    using decision_facts [of b] by (elim exE conjE) (rule that)
  have names: "distinct [''high'', ''medium'', ''low'']" by simp
  note c = level_cases [OF lv names]
  have h: "risk_level d = ''high'' \<longleftrightarrow>
        ''under_3'' \<in> set (risk_flags d) \<or> ''licensed_brand'' \<in> set (risk_flags d)"
    unfolding u l by (rule c(1))
  have m: "risk_level d = ''medium'' \<longleftrightarrow>
        \<not> (''under_3'' \<in> set (risk_flags d) \<or> ''licensed_brand'' \<in> set (risk_flags d))
        \<and> risk_flags d \<noteq> []"
    unfolding u l e not_not by (rule c(2))
  have w: "risk_level d = ''low'' \<longleftrightarrow>
        \<not> (''under_3'' \<in> set (risk_flags d) \<or> ''licensed_brand'' \<in> set (risk_flags d))
        \<and> risk_flags d = []"
    unfolding u l e by (rule c(3))
  show ?thesis by (intro exI conjI) (rule d h m w u l)+
qed

text \<open>The first golden case: two of its four flags are the ones that force "high".\<close>

theorem risk_level_by_flags_witness:
  "\<exists>d. classify_risk golden_high = Inr d \<and> risk_level d = ''high'' \<and>
     ''under_3'' \<in> set (risk_flags d) \<and> ''licensed_brand'' \<in> set (risk_flags d) \<and>
     length (risk_flags d) = 4"
  using risk_level_by_flags [of golden_high] by (simp add: golden_high_decision)

text \<open>
  C2. For every brief, human approval is required exactly when one of the flags under_3,
  licensed_brand, claims_need_evidence is among the risk flags; a brief whose raised flags
  are only plastic_present and high_severity_issues needs no human approval.
\<close>

theorem human_approval_gating:
  "\<exists>d. classify_risk b = Inr d \<and>
     (human_approval_required d \<longleftrightarrow>
        ''under_3'' \<in> set (risk_flags d) \<or> ''licensed_brand'' \<in> set (risk_flags d)
        \<or> ''claims_need_evidence'' \<in> set (risk_flags d)) \<and>
     (set (risk_flags d) \<subseteq> {''plastic_present'', ''high_severity_issues''}
        \<longrightarrow> \<not> human_approval_required d)"
proof -
  obtain d where d: "classify_risk b = Inr d"
    and u: "''under_3'' \<in> set (risk_flags d) \<longleftrightarrow> age_under_3 (age_grade b)"
    and l: "''licensed_brand'' \<in> set (risk_flags d) \<longleftrightarrow> licensed b"
    and c: "''claims_need_evidence'' \<in> set (risk_flags d) \<longleftrightarrow>
              claims_need_evidence (claims b)"
    and a: "human_approval_required d =
       (age_under_3 (age_grade b) \<or> licensed b \<or> claims_need_evidence (claims b))"
    using decision_facts [of b] by (elim exE conjE) (rule that)
  have iff: "human_approval_required d \<longleftrightarrow>
        ''under_3'' \<in> set (risk_flags d) \<or> ''licensed_brand'' \<in> set (risk_flags d)
        \<or> ''claims_need_evidence'' \<in> set (risk_flags d)"
    unfolding u l c by (rule a)
  have only: "set (risk_flags d) \<subseteq> {''plastic_present'', ''high_severity_issues''}
        \<longrightarrow> \<not> human_approval_required d"
  proof
    assume sub: "set (risk_flags d) \<subseteq> {''plastic_present'', ''high_severity_issues''}"
    have 1: "''under_3'' \<notin> set (risk_flags d)"
      by (rule not_in_pair_subset [OF sub]) simp_all
    have 2: "''licensed_brand'' \<notin> set (risk_flags d)"
      by (rule not_in_pair_subset [OF sub]) simp_all
    have 3: "''claims_need_evidence'' \<notin> set (risk_flags d)"
      by (rule not_in_pair_subset [OF sub]) simp_all
    show "\<not> human_approval_required d" unfolding iff using 1 2 3 by simp
  qed
  show ?thesis by (intro exI conjI) (rule d iff only)+
qed

text \<open>A brief with a PVC material and one issue of high severity, nothing else.\<close>

lemma pvc_issue_decision:
  "classify_risk (golden_low\<lparr>materials := [''PVC''], issues := [high_issue]\<rparr>) =
     Inr \<lparr>requires_quality_review = False, requires_legal_review = False,
          requires_licensing_review = False, requires_sustainability_review = True,
          risk_flags = [''plastic_present'', ''high_severity_issues''],
          risk_level = ''medium'',
          routing_notes =
            [''Plastic/PVC/blister: sustainability review recommended.'',
             ''High-severity issues from brief require attention.''],
          human_approval_required = False\<rparr>"
  by code_simp

theorem human_approval_gating_witness:
  "\<exists>d. classify_risk (golden_low\<lparr>materials := [''PVC''], issues := [high_issue]\<rparr>) = Inr d \<and>
     set (risk_flags d) \<subseteq> {''plastic_present'', ''high_severity_issues''} \<and>
     \<not> human_approval_required d"
proof -
  let ?b = "golden_low\<lparr>materials := [''PVC''], issues := [high_issue]\<rparr>"
  from human_approval_gating [of ?b] obtain d where d: "classify_risk ?b = Inr d"
    and i: "set (risk_flags d) \<subseteq> {''plastic_present'', ''high_severity_issues''}
              \<longrightarrow> \<not> human_approval_required d"
    by (elim exE conjE) (rule that)
  have h: "set (risk_flags d) \<subseteq> {''plastic_present'', ''high_severity_issues''}"
    using d [symmetric] by (simp add: pvc_issue_decision)
  from i h have c: "\<not> human_approval_required d" by (rule mp)
  show ?thesis by (intro exI conjI) (rule d h c)+
qed

text \<open>
  C3. For every brief, the flag under_3 is raised, and quality review required, exactly when
  the age grade, put in lower case and stripped, contains one of "0", "1", "2", "18m", "24m",
  "under 3", "under three" as a substring. So the age grade "0-3" raises the flag, and so does
  every age grade with the digit 2 anywhere in it: the rule matches text, not a range of
  numbers.
\<close>

theorem under_3_substring_rule:
  "\<exists>d. classify_risk b = Inr d \<and>
     (''under_3'' \<in> set (risk_flags d) \<longleftrightarrow>
        (\<exists>x \<in> set [''0'', ''1'', ''2'', ''18m'', ''24m'', ''under 3'', ''under three''].
           \<exists>p q. strip (lower (age_grade b)) = p @ x @ q)) \<and>
     (requires_quality_review d \<longleftrightarrow>
        (\<exists>x \<in> set [''0'', ''1'', ''2'', ''18m'', ''24m'', ''under 3'', ''under three''].
           \<exists>p q. strip (lower (age_grade b)) = p @ x @ q)) \<and>
     (age_grade b = ''0-3'' \<longrightarrow>
        ''under_3'' \<in> set (risk_flags d) \<and> requires_quality_review d) \<and>
     (CHR ''2'' \<in> set (age_grade b) \<longrightarrow>
        ''under_3'' \<in> set (risk_flags d) \<and> requires_quality_review d)"
proof -
  obtain d where d: "classify_risk b = Inr d"
    and u: "''under_3'' \<in> set (risk_flags d) \<longleftrightarrow> age_under_3 (age_grade b)"
    and q: "requires_quality_review d = age_under_3 (age_grade b)"
    using decision_facts [of b] by (elim exE conjE) (rule that)
  have f: "''under_3'' \<in> set (risk_flags d) \<longleftrightarrow>
        (\<exists>x \<in> set [''0'', ''1'', ''2'', ''18m'', ''24m'', ''under 3'', ''under three''].
           \<exists>p q. strip (lower (age_grade b)) = p @ x @ q)"
    unfolding u by (rule age_under_3_iff)
  have r: "requires_quality_review d \<longleftrightarrow>
        (\<exists>x \<in> set [''0'', ''1'', ''2'', ''18m'', ''24m'', ''under 3'', ''under three''].
           \<exists>p q. strip (lower (age_grade b)) = p @ x @ q)"
    unfolding q by (rule age_under_3_iff)
  have z: "age_grade b = ''0-3'' \<longrightarrow>
        ''under_3'' \<in> set (risk_flags d) \<and> requires_quality_review d"
    unfolding u q using age_under_3_0_3 by simp
  have t: "CHR ''2'' \<in> set (age_grade b) \<longrightarrow>
        ''under_3'' \<in> set (risk_flags d) \<and> requires_quality_review d"
    unfolding u q using age_under_3_digit_2 [of "age_grade b"] by simp
  show ?thesis by (intro exI conjI) (rule d f r z t)+
qed

text \<open>The age grade "0-3", and an age grade whose only match is a digit 2.\<close>

theorem under_3_substring_rule_witness:
  "(\<exists>d. classify_risk (golden_low\<lparr>age_grade := ''0-3''\<rparr>) = Inr d \<and>
      ''under_3'' \<in> set (risk_flags d) \<and> requires_quality_review d) \<and>
   (\<exists>d. classify_risk (golden_low\<lparr>age_grade := ''Pack of 2''\<rparr>) = Inr d \<and>
      ''under_3'' \<in> set (risk_flags d) \<and> requires_quality_review d)"
proof -
  let ?b1 = "golden_low\<lparr>age_grade := ''0-3''\<rparr>"
  let ?b2 = "golden_low\<lparr>age_grade := ''Pack of 2''\<rparr>"
  from under_3_substring_rule [of ?b1] obtain d1 where d1: "classify_risk ?b1 = Inr d1"
    and i1: "age_grade ?b1 = ''0-3'' \<longrightarrow>
               ''under_3'' \<in> set (risk_flags d1) \<and> requires_quality_review d1"
    by (elim exE conjE) (rule that)
  from under_3_substring_rule [of ?b2] obtain d2 where d2: "classify_risk ?b2 = Inr d2"
    and i2: "CHR ''2'' \<in> set (age_grade ?b2) \<longrightarrow>
               ''under_3'' \<in> set (risk_flags d2) \<and> requires_quality_review d2"
    by (elim exE conjE) (rule that)
  have h1: "age_grade ?b1 = ''0-3''" by simp
  have h2: "CHR ''2'' \<in> set (age_grade ?b2)" by simp
  from i1 h1 have c1: "''under_3'' \<in> set (risk_flags d1) \<and> requires_quality_review d1"
    by (rule mp)
  from i2 h2 have c2: "''under_3'' \<in> set (risk_flags d2) \<and> requires_quality_review d2"
    by (rule mp)
  show ?thesis by (intro exI conjI) (rule d1 d2 c1 [THEN conjunct1] c1 [THEN conjunct2]
      c2 [THEN conjunct1] c2 [THEN conjunct2])+
qed

text \<open>
  C4. For every brief, the flag claims_need_evidence is raised, and legal review required,
  exactly when some claim has one of the four legal claim types or has severity "high". A
  brief whose claims all have other types, known or not, and a severity that is not "high"
  does not raise it; and a type outside the four behaves as OTHER_CLAIM: replacing it by
  OTHER_CLAIM leaves the decision as it is.
\<close>

theorem claims_need_evidence_rule:
  "\<exists>d. classify_risk b = Inr d \<and>
     (''claims_need_evidence'' \<in> set (risk_flags d) \<longleftrightarrow>
        (\<exists>c \<in> set (claims b).
           normalized_type c \<in> {''CHEMICAL_SAFETY_CLAIM'', ''SUSTAINABILITY_CLAIM'',
                                 ''PERFORMANCE_CLAIM'', ''SAFETY_CLAIM''}
           \<or> claim_severity c = ''high'')) \<and>
     (requires_legal_review d \<longleftrightarrow>
        (\<exists>c \<in> set (claims b).
           normalized_type c \<in> {''CHEMICAL_SAFETY_CLAIM'', ''SUSTAINABILITY_CLAIM'',
                                 ''PERFORMANCE_CLAIM'', ''SAFETY_CLAIM''}
           \<or> claim_severity c = ''high'')) \<and>
     ((\<forall>c \<in> set (claims b).
          normalized_type c \<notin> {''CHEMICAL_SAFETY_CLAIM'', ''SUSTAINABILITY_CLAIM'',
                                 ''PERFORMANCE_CLAIM'', ''SAFETY_CLAIM''}
          \<and> claim_severity c \<noteq> ''high'')
        \<longrightarrow> ''claims_need_evidence'' \<notin> set (risk_flags d) \<and> \<not> requires_legal_review d) \<and>
     classify_risk
       (b\<lparr>claims :=
            map (\<lambda>c. if normalized_type c \<in> {''CHEMICAL_SAFETY_CLAIM'', ''SUSTAINABILITY_CLAIM'',
                                               ''PERFORMANCE_CLAIM'', ''SAFETY_CLAIM''}
                      then c else c\<lparr>normalized_type := ''OTHER_CLAIM''\<rparr>) (claims b)\<rparr>) = Inr d"
proof -
  obtain d where d: "classify_risk b = Inr d"
    and c: "''claims_need_evidence'' \<in> set (risk_flags d) \<longleftrightarrow>
              claims_need_evidence (claims b)"
    and g: "requires_legal_review d = claims_need_evidence (claims b)"
    using decision_facts [of b] by (elim exE conjE) (rule that)
  have f: "''claims_need_evidence'' \<in> set (risk_flags d) \<longleftrightarrow>
        (\<exists>c \<in> set (claims b).
           normalized_type c \<in> {''CHEMICAL_SAFETY_CLAIM'', ''SUSTAINABILITY_CLAIM'',
                                 ''PERFORMANCE_CLAIM'', ''SAFETY_CLAIM''}
           \<or> claim_severity c = ''high'')"
    unfolding c by (rule claims_need_evidence_iff')
  have r: "requires_legal_review d \<longleftrightarrow>
        (\<exists>c \<in> set (claims b).
           normalized_type c \<in> {''CHEMICAL_SAFETY_CLAIM'', ''SUSTAINABILITY_CLAIM'',
                                 ''PERFORMANCE_CLAIM'', ''SAFETY_CLAIM''}
           \<or> claim_severity c = ''high'')"
    unfolding g by (rule claims_need_evidence_iff')
  have n: "(\<forall>c \<in> set (claims b).
          normalized_type c \<notin> {''CHEMICAL_SAFETY_CLAIM'', ''SUSTAINABILITY_CLAIM'',
                                 ''PERFORMANCE_CLAIM'', ''SAFETY_CLAIM''}
          \<and> claim_severity c \<noteq> ''high'')
        \<longrightarrow> ''claims_need_evidence'' \<notin> set (risk_flags d) \<and> \<not> requires_legal_review d"
  proof
    assume "\<forall>c \<in> set (claims b).
          normalized_type c \<notin> {''CHEMICAL_SAFETY_CLAIM'', ''SUSTAINABILITY_CLAIM'',
                                 ''PERFORMANCE_CLAIM'', ''SAFETY_CLAIM''}
          \<and> claim_severity c \<noteq> ''high''"
    then have "\<not> (\<exists>c \<in> set (claims b).
           normalized_type c \<in> {''CHEMICAL_SAFETY_CLAIM'', ''SUSTAINABILITY_CLAIM'',
                                 ''PERFORMANCE_CLAIM'', ''SAFETY_CLAIM''}
           \<or> claim_severity c = ''high'')"
      by (rule none_of_two)
    then show "''claims_need_evidence'' \<notin> set (risk_flags d) \<and> \<not> requires_legal_review d"
      unfolding f r by simp
  qed
  have o: "classify_risk
       (b\<lparr>claims :=
            map (\<lambda>c. if normalized_type c \<in> {''CHEMICAL_SAFETY_CLAIM'', ''SUSTAINABILITY_CLAIM'',
                                               ''PERFORMANCE_CLAIM'', ''SAFETY_CLAIM''}
                      then c else c\<lparr>normalized_type := ''OTHER_CLAIM''\<rparr>) (claims b)\<rparr>) =
      classify_risk b"
  proof (rule classify_risk_tests)
    have sel: "claims (b\<lparr>claims := cs\<rparr>) = cs" for cs by simp
    show "claims_need_evidence
        (claims (b\<lparr>claims :=
            map (\<lambda>c. if normalized_type c \<in> {''CHEMICAL_SAFETY_CLAIM'', ''SUSTAINABILITY_CLAIM'',
                                               ''PERFORMANCE_CLAIM'', ''SAFETY_CLAIM''}
                      then c else c\<lparr>normalized_type := ''OTHER_CLAIM''\<rparr>) (claims b)\<rparr>)) =
      claims_need_evidence (claims b)"
      unfolding sel by (rule claims_need_evidence_other')
  qed simp_all
  show ?thesis by (intro exI conjI) (rule d f r n o [unfolded d])+
qed

text \<open>A claim of a type the rules do not know, with severity "medium".\<close>

theorem claims_need_evidence_rule_witness:
  "\<exists>d. classify_risk
          (golden_low\<lparr>claims :=
             [\<lparr>raw_text = ''Doctor approved'', normalized_type = ''HEALTH_CLAIM'',
               risk_keywords = [], evidence_hint = [], claim_severity = ''medium''\<rparr>]\<rparr>) = Inr d \<and>
     ''claims_need_evidence'' \<notin> set (risk_flags d) \<and> \<not> requires_legal_review d"
proof -
  let ?b = "golden_low\<lparr>claims :=
             [\<lparr>raw_text = ''Doctor approved'', normalized_type = ''HEALTH_CLAIM'',
               risk_keywords = [], evidence_hint = [], claim_severity = ''medium''\<rparr>]\<rparr>"
  from claims_need_evidence_rule [of ?b] obtain d where d: "classify_risk ?b = Inr d"
    and i: "(\<forall>c \<in> set (claims ?b).
          normalized_type c \<notin> {''CHEMICAL_SAFETY_CLAIM'', ''SUSTAINABILITY_CLAIM'',
                                 ''PERFORMANCE_CLAIM'', ''SAFETY_CLAIM''}
          \<and> claim_severity c \<noteq> ''high'')
        \<longrightarrow> ''claims_need_evidence'' \<notin> set (risk_flags d) \<and> \<not> requires_legal_review d"
    by (elim exE conjE) (rule that)
  have h: "\<forall>c \<in> set (claims ?b).
          normalized_type c \<notin> {''CHEMICAL_SAFETY_CLAIM'', ''SUSTAINABILITY_CLAIM'',
                                 ''PERFORMANCE_CLAIM'', ''SAFETY_CLAIM''}
          \<and> claim_severity c \<noteq> ''high''"
    by simp
  from i h have c: "''claims_need_evidence'' \<notin> set (risk_flags d) \<and> \<not> requires_legal_review d"
    by (rule mp)
  show ?thesis by (intro exI conjI) (rule d c [THEN conjunct1] c [THEN conjunct2])+
qed

text \<open>
  C5. For every brief, the flag plastic_present is raised, and sustainability review
  required, exactly when some material, put in lower case and stripped, is equal to
  "plastic", "pvc" or "blister". A material that only contains one of them does not match:
  with the single material "plastics" the flag is not raised.
\<close>

theorem plastic_present_rule:
  "\<exists>d. classify_risk b = Inr d \<and>
     (''plastic_present'' \<in> set (risk_flags d) \<longleftrightarrow>
        (\<exists>m \<in> set (materials b). strip (lower m) = ''plastic'' \<or> strip (lower m) = ''pvc''
           \<or> strip (lower m) = ''blister'')) \<and>
     (requires_sustainability_review d \<longleftrightarrow>
        (\<exists>m \<in> set (materials b). strip (lower m) = ''plastic'' \<or> strip (lower m) = ''pvc''
           \<or> strip (lower m) = ''blister'')) \<and>
     (\<exists>d'. classify_risk (b\<lparr>materials := [''plastics'']\<rparr>) = Inr d' \<and>
        ''plastic_present'' \<notin> set (risk_flags d') \<and> \<not> requires_sustainability_review d')"
proof -
  obtain d where d: "classify_risk b = Inr d"
    and p: "''plastic_present'' \<in> set (risk_flags d) \<longleftrightarrow> plastic_present (materials b)"
    and s: "requires_sustainability_review d = plastic_present (materials b)"
    using decision_facts [of b] by (elim exE conjE) (rule that)
  obtain d' where d': "classify_risk (b\<lparr>materials := [''plastics'']\<rparr>) = Inr d'"
    and p': "''plastic_present'' \<in> set (risk_flags d') \<longleftrightarrow>
               plastic_present (materials (b\<lparr>materials := [''plastics'']\<rparr>))"
    and s': "requires_sustainability_review d' =
               plastic_present (materials (b\<lparr>materials := [''plastics'']\<rparr>))"
    using decision_facts [of "b\<lparr>materials := [''plastics'']\<rparr>"]
    by (elim exE conjE) (rule that)
  have f: "''plastic_present'' \<in> set (risk_flags d) \<longleftrightarrow>
        (\<exists>m \<in> set (materials b). strip (lower m) = ''plastic'' \<or> strip (lower m) = ''pvc''
           \<or> strip (lower m) = ''blister'')"
    unfolding p by (rule plastic_present_iff)
  have r: "requires_sustainability_review d \<longleftrightarrow>
        (\<exists>m \<in> set (materials b). strip (lower m) = ''plastic'' \<or> strip (lower m) = ''pvc''
           \<or> strip (lower m) = ''blister'')"
    unfolding s by (rule plastic_present_iff)
  have m: "materials (b\<lparr>materials := [''plastics'']\<rparr>) = [''plastics'']" by simp
  have np: "''plastic_present'' \<notin> set (risk_flags d')"
    unfolding p' m by (rule not_plastic_plastics)
  have ns: "\<not> requires_sustainability_review d'"
    unfolding s' m by (rule not_plastic_plastics)
  show ?thesis by (intro exI conjI) (rule d f r d' np ns)+
qed

text \<open>The third golden case has the materials "plastic" and "blister".\<close>

theorem plastic_present_rule_witness:
  "\<exists>d. classify_risk golden_medium = Inr d \<and>
     ''plastic_present'' \<in> set (risk_flags d) \<and> requires_sustainability_review d"
  using plastic_present_rule [of golden_medium] by (simp add: golden_medium_decision)

text \<open>
  C6. For every brief, the flag high_severity_issues is raised exactly when some issue has
  severity "high". The step sets no review boolean: whatever the issues are, the four review
  booleans are the same. So a brief on which only this step matches gets the four review
  booleans false, no human approval, and the risk level "medium".
\<close>

theorem high_severity_issues_rule:
  "(\<exists>d. classify_risk b = Inr d \<and>
      (''high_severity_issues'' \<in> set (risk_flags d) \<longleftrightarrow>
         (\<exists>i \<in> set (issues b). issue_severity i = ''high'')) \<and>
      (\<forall>iss. \<exists>d'. classify_risk (b\<lparr>issues := iss\<rparr>) = Inr d' \<and>
         requires_quality_review d' = requires_quality_review d \<and>
         requires_legal_review d' = requires_legal_review d \<and>
         requires_licensing_review d' = requires_licensing_review d \<and>
         requires_sustainability_review d' = requires_sustainability_review d)) \<and>
   (\<not> age_under_3 (age_grade b) \<and> \<not> licensed b \<and> \<not> claims_need_evidence (claims b) \<and>
    \<not> plastic_present (materials b) \<and> (\<exists>i \<in> set (issues b). issue_severity i = ''high'')
      \<longrightarrow> classify_risk b =
            Inr \<lparr>requires_quality_review = False, requires_legal_review = False,
                 requires_licensing_review = False, requires_sustainability_review = False,
                 risk_flags = [''high_severity_issues''],
                 risk_level = ''medium'',
                 routing_notes = [''High-severity issues from brief require attention.''],
                 human_approval_required = False\<rparr>)"
proof -
  obtain d where d: "classify_risk b = Inr d"
    and q: "requires_quality_review d = age_under_3 (age_grade b)"
    and g: "requires_legal_review d = claims_need_evidence (claims b)"
    and c: "requires_licensing_review d = licensed b"
    and s: "requires_sustainability_review d = plastic_present (materials b)"
    and h: "''high_severity_issues'' \<in> set (risk_flags d) \<longleftrightarrow>
              high_severity_issues (issues b)"
    using decision_facts [of b] by (elim exE conjE) (rule that)
  have f: "''high_severity_issues'' \<in> set (risk_flags d) \<longleftrightarrow>
         (\<exists>i \<in> set (issues b). issue_severity i = ''high'')"
    unfolding h by (rule high_severity_issues_iff)
  have k: "\<exists>d'. classify_risk (b\<lparr>issues := iss\<rparr>) = Inr d' \<and>
         requires_quality_review d' = requires_quality_review d \<and>
         requires_legal_review d' = requires_legal_review d \<and>
         requires_licensing_review d' = requires_licensing_review d \<and>
         requires_sustainability_review d' = requires_sustainability_review d" for iss
  proof -
    obtain d' where d': "classify_risk (b\<lparr>issues := iss\<rparr>) = Inr d'"
      and q': "requires_quality_review d' = age_under_3 (age_grade (b\<lparr>issues := iss\<rparr>))"
      and g': "requires_legal_review d' = claims_need_evidence (claims (b\<lparr>issues := iss\<rparr>))"
      and c': "requires_licensing_review d' = licensed (b\<lparr>issues := iss\<rparr>)"
      and s': "requires_sustainability_review d' =
                 plastic_present (materials (b\<lparr>issues := iss\<rparr>))"
      using decision_facts [of "b\<lparr>issues := iss\<rparr>"] by (elim exE conjE) (rule that)
    have "requires_quality_review d' = requires_quality_review d" unfolding q q' by simp
    moreover have "requires_legal_review d' = requires_legal_review d" unfolding g g' by simp
    moreover have "requires_licensing_review d' = requires_licensing_review d"
      unfolding c c' by simp
    moreover have "requires_sustainability_review d' = requires_sustainability_review d"
      unfolding s s' by simp
    ultimately show ?thesis using d' by (intro exI conjI)
  qed
  have only: "\<not> age_under_3 (age_grade b) \<and> \<not> licensed b \<and> \<not> claims_need_evidence (claims b) \<and>
    \<not> plastic_present (materials b) \<and> (\<exists>i \<in> set (issues b). issue_severity i = ''high'')
      \<longrightarrow> classify_risk b =
            Inr \<lparr>requires_quality_review = False, requires_legal_review = False,
                 requires_licensing_review = False, requires_sustainability_review = False,
                 risk_flags = [''high_severity_issues''],
                 risk_level = ''medium'',
                 routing_notes = [''High-severity issues from brief require attention.''],
                 human_approval_required = False\<rparr>"
  proof (intro impI, elim conjE)
    assume 1: "\<not> age_under_3 (age_grade b)" and 2: "\<not> licensed b"
      and 3: "\<not> claims_need_evidence (claims b)"
      and 4: "\<not> plastic_present (materials b)"
      and e: "\<exists>i \<in> set (issues b). issue_severity i = ''high''"
    from e have 5: "high_severity_issues (issues b)" unfolding high_severity_issues_iff .
    show "classify_risk b =
            Inr \<lparr>requires_quality_review = False, requires_legal_review = False,
                 requires_licensing_review = False, requires_sustainability_review = False,
                 risk_flags = [''high_severity_issues''],
                 risk_level = ''medium'',
                 routing_notes = [''High-severity issues from brief require attention.''],
                 human_approval_required = False\<rparr>"
      unfolding classify_risk_closed using 1 2 3 4 5 by simp
  qed
  have main: "\<exists>d. classify_risk b = Inr d \<and>
      (''high_severity_issues'' \<in> set (risk_flags d) \<longleftrightarrow>
         (\<exists>i \<in> set (issues b). issue_severity i = ''high'')) \<and>
      (\<forall>iss. \<exists>d'. classify_risk (b\<lparr>issues := iss\<rparr>) = Inr d' \<and>
         requires_quality_review d' = requires_quality_review d \<and>
         requires_legal_review d' = requires_legal_review d \<and>
         requires_licensing_review d' = requires_licensing_review d \<and>
         requires_sustainability_review d' = requires_sustainability_review d)"
    by (rule exI [of _ d], intro conjI allI) (rule d f k)+
  show ?thesis by (rule conjI) (rule main only)+
qed

text \<open>The second golden case with one issue of high severity added.\<close>

theorem high_severity_issues_rule_witness:
  "classify_risk (golden_low\<lparr>issues := [high_issue]\<rparr>) =
     Inr \<lparr>requires_quality_review = False, requires_legal_review = False,
          requires_licensing_review = False, requires_sustainability_review = False,
          risk_flags = [''high_severity_issues''],
          risk_level = ''medium'',
          routing_notes = [''High-severity issues from brief require attention.''],
          human_approval_required = False\<rparr>"
proof -
  let ?b = "golden_low\<lparr>issues := [high_issue]\<rparr>"
  have 1: "\<not> age_under_3 (age_grade ?b)" by code_simp
  have 2: "\<not> licensed ?b" by code_simp
  have 3: "\<not> claims_need_evidence (claims ?b)" by code_simp
  have 4: "\<not> plastic_present (materials ?b)" by code_simp
  have 5: "\<exists>i \<in> set (issues ?b). issue_severity i = ''high''"
    by (simp add: high_issue_def)
  have h: "\<not> age_under_3 (age_grade ?b) \<and> \<not> licensed ?b \<and>
      \<not> claims_need_evidence (claims ?b) \<and> \<not> plastic_present (materials ?b) \<and>
      (\<exists>i \<in> set (issues ?b). issue_severity i = ''high'')"
    by (intro conjI) (rule 1 2 3 4 5)+
  from high_severity_issues_rule [of ?b, THEN conjunct2] h show ?thesis by (rule mp)
qed

text \<open>
  C7. A brief whose age grade contains no under-3 indicator, that is not licensed, has no
  claim of a legal claim type or of severity "high", no material equal to "plastic", "pvc" or
  "blister", and no issue of severity "high", gets the risk level "low", the four review
  booleans false, no human approval, no risk flag and no routing note.
\<close>

theorem no_flags_low_risk:
  assumes "\<not> (\<exists>x \<in> set [''0'', ''1'', ''2'', ''18m'', ''24m'', ''under 3'', ''under three''].
               \<exists>p q. strip (lower (age_grade b)) = p @ x @ q)"
    and "\<not> licensed b"
    and "\<forall>c \<in> set (claims b).
           normalized_type c \<notin> {''CHEMICAL_SAFETY_CLAIM'', ''SUSTAINABILITY_CLAIM'',
                                  ''PERFORMANCE_CLAIM'', ''SAFETY_CLAIM''}
           \<and> claim_severity c \<noteq> ''high''"
    and "\<forall>m \<in> set (materials b).
           \<not> (strip (lower m) = ''plastic'' \<or> strip (lower m) = ''pvc''
              \<or> strip (lower m) = ''blister'')"
    and "\<forall>i \<in> set (issues b). issue_severity i \<noteq> ''high''"
  shows "classify_risk b =
     Inr \<lparr>requires_quality_review = False, requires_legal_review = False,
          requires_licensing_review = False, requires_sustainability_review = False,
          risk_flags = [], risk_level = ''low'', routing_notes = [],
          human_approval_required = False\<rparr>"
proof -
  have u: "\<not> age_under_3 (age_grade b)"
    unfolding age_under_3_iff by (rule assms(1))
  have c: "\<not> claims_need_evidence (claims b)"
    unfolding claims_need_evidence_iff' by (rule none_of_two) (rule assms(3))
  have p: "\<not> plastic_present (materials b)"
    unfolding plastic_present_iff by (rule none_of_one) (rule assms(4))
  have h: "\<not> high_severity_issues (issues b)"
    unfolding high_severity_issues_iff by (rule none_of_one) (rule assms(5))
  show ?thesis
    unfolding classify_risk_closed using u assms(2) c p h by simp
qed

text \<open>The second golden case meets the five conditions.\<close>

theorem no_flags_low_risk_witness:
  "classify_risk golden_low =
     Inr \<lparr>requires_quality_review = False, requires_legal_review = False,
          requires_licensing_review = False, requires_sustainability_review = False,
          risk_flags = [], risk_level = ''low'', routing_notes = [],
          human_approval_required = False\<rparr>"
proof -
  have "\<not> age_under_3 (age_grade golden_low)" by code_simp
  then have 1: "\<not> (\<exists>x \<in> set [''0'', ''1'', ''2'', ''18m'', ''24m'', ''under 3'', ''under three''].
               \<exists>p q. strip (lower (age_grade golden_low)) = p @ x @ q)"
    unfolding age_under_3_iff .
  have 2: "\<not> licensed golden_low" by (simp add: golden_low_def)
  have 3: "\<forall>c \<in> set (claims golden_low).
           normalized_type c \<notin> {''CHEMICAL_SAFETY_CLAIM'', ''SUSTAINABILITY_CLAIM'',
                                  ''PERFORMANCE_CLAIM'', ''SAFETY_CLAIM''}
           \<and> claim_severity c \<noteq> ''high''"
    by (simp add: golden_low_def)
  have "\<not> plastic_present (materials golden_low)" by code_simp
  then have "\<not> (\<exists>m \<in> set (materials golden_low).
           strip (lower m) = ''plastic'' \<or> strip (lower m) = ''pvc''
              \<or> strip (lower m) = ''blister'')"
    unfolding plastic_present_iff .
  then have 4: "\<forall>m \<in> set (materials golden_low).
           \<not> (strip (lower m) = ''plastic'' \<or> strip (lower m) = ''pvc''
              \<or> strip (lower m) = ''blister'')"
    by (simp only: bex_simps)
  have 5: "\<forall>i \<in> set (issues golden_low). issue_severity i \<noteq> ''high''"
    by (simp add: golden_low_def)
  show ?thesis by (rule no_flags_low_risk [OF 1 2 3 4 5])
qed

subsection \<open>A call and the state it leaves\<close>











text \<open>
  C9. The risk step is total: for every brief it returns a decision and never raises, the
  level it returns being one of the three that the decision type admits. Missing data only
  leaves a flag out: an empty age grade raises no under_3, an empty list of claims no
  claims_need_evidence, an empty list of materials no plastic_present, an empty list of
  issues no high_severity_issues.
\<close>

theorem classify_risk_total:
  "\<exists>d. classify_risk b = Inr d \<and>
     risk_level d \<in> {''low'', ''medium'', ''high''} \<and>
     (age_grade b = [] \<longrightarrow> ''under_3'' \<notin> set (risk_flags d)) \<and>
     (claims b = [] \<longrightarrow> ''claims_need_evidence'' \<notin> set (risk_flags d)) \<and>
     (materials b = [] \<longrightarrow> ''plastic_present'' \<notin> set (risk_flags d)) \<and>
     (issues b = [] \<longrightarrow> ''high_severity_issues'' \<notin> set (risk_flags d))"
proof -
  obtain d where d: "classify_risk b = Inr d"
    and u: "''under_3'' \<in> set (risk_flags d) \<longleftrightarrow> age_under_3 (age_grade b)"
    and c: "''claims_need_evidence'' \<in> set (risk_flags d) \<longleftrightarrow>
              claims_need_evidence (claims b)"
    and p: "''plastic_present'' \<in> set (risk_flags d) \<longleftrightarrow> plastic_present (materials b)"
    and h: "''high_severity_issues'' \<in> set (risk_flags d) \<longleftrightarrow>
              high_severity_issues (issues b)"
    and lv: "risk_level d =
       (if age_under_3 (age_grade b) \<or> licensed b then ''high''
        else if claims_need_evidence (claims b) \<or> plastic_present (materials b)
                \<or> high_severity_issues (issues b) then ''medium''
        else ''low'')"
    using decision_facts [of b] by (elim exE conjE) (rule that)
  have e: "\<not> age_under_3 []" by code_simp
  have v: "risk_level d \<in> {''low'', ''medium'', ''high''}"
    unfolding lv by simp
  have 1: "age_grade b = [] \<longrightarrow> ''under_3'' \<notin> set (risk_flags d)"
    unfolding u using e by simp
  have 2: "claims b = [] \<longrightarrow> ''claims_need_evidence'' \<notin> set (risk_flags d)"
    unfolding c by simp
  have 3: "materials b = [] \<longrightarrow> ''plastic_present'' \<notin> set (risk_flags d)"
    unfolding p by (simp add: plastic_present_def)
  have 4: "issues b = [] \<longrightarrow> ''high_severity_issues'' \<notin> set (risk_flags d)"
    unfolding h by (simp add: high_severity_issues_def)
  show ?thesis by (intro exI conjI) (rule d v 1 2 3 4)+
qed

text \<open>The empty brief: it has none of the four kinds of data, and gets none of the flags.\<close>

theorem classify_risk_total_witness:
  "\<exists>d. classify_risk empty_brief = Inr d \<and>
     ''under_3'' \<notin> set (risk_flags d) \<and> ''claims_need_evidence'' \<notin> set (risk_flags d) \<and>
     ''plastic_present'' \<notin> set (risk_flags d) \<and>
     ''high_severity_issues'' \<notin> set (risk_flags d)"
proof -
  from classify_risk_total [of empty_brief] obtain d
    where d: "classify_risk empty_brief = Inr d"
      and 1: "age_grade empty_brief = [] \<longrightarrow> ''under_3'' \<notin> set (risk_flags d)"
      and 2: "claims empty_brief = [] \<longrightarrow> ''claims_need_evidence'' \<notin> set (risk_flags d)"
      and 3: "materials empty_brief = [] \<longrightarrow> ''plastic_present'' \<notin> set (risk_flags d)"
      and 4: "issues empty_brief = [] \<longrightarrow> ''high_severity_issues'' \<notin> set (risk_flags d)"
    by (elim exE conjE) (rule that)
  have a: "age_grade empty_brief = []" and c: "claims empty_brief = []"
    and m: "materials empty_brief = []" and i: "issues empty_brief = []"
    by (simp_all add: empty_brief_def)
  show ?thesis
    by (intro exI conjI) (rule d 1 [THEN mp, OF a] 2 [THEN mp, OF c] 3 [THEN mp, OF m]
        4 [THEN mp, OF i])+
qed

text \<open>
  C10. In every decision the risk flags are pairwise different and form a subsequence of
  the order of evaluation under_3, licensed_brand, claims_need_evidence, plastic_present,
  high_severity_issues; there are as many routing notes as flags, and the notes are those of
  the raised flags, in the order of the flags.
\<close>

theorem risk_flags_shape:
  "\<exists>d. classify_risk b = Inr d \<and>
     distinct (risk_flags d) \<and>
     subseq (risk_flags d)
       [''under_3'', ''licensed_brand'', ''claims_need_evidence'', ''plastic_present'',
        ''high_severity_issues''] \<and>
     length (routing_notes d) = length (risk_flags d) \<and>
     subseq (zip (risk_flags d) (routing_notes d))
       [(''under_3'', ''Age grade under 3: quality review required.''),
        (''licensed_brand'', ''Licensed product: licensing review required.''),
        (''claims_need_evidence'', ''Marketing claims require legal/evidence review.''),
        (''plastic_present'', ''Plastic/PVC/blister: sustainability review recommended.''),
        (''high_severity_issues'', ''High-severity issues from brief require attention.'')]"
proof -
  have names: "distinct [''under_3'', ''licensed_brand'', ''claims_need_evidence'',
                         ''plastic_present'', ''high_severity_issues'']"
    by simp
  show ?thesis
    unfolding classify_risk_closed
    by (intro exI conjI, rule refl; simp only: ReviewDecision.simps zip_chain)
      (rule distinct_chain [OF names] subseq_chain length_chain)+
qed

text \<open>The first golden case: four flags in the order of evaluation, four notes.\<close>

theorem risk_flags_shape_witness:
  "\<exists>d. classify_risk golden_high = Inr d \<and>
     risk_flags d = [''under_3'', ''licensed_brand'', ''claims_need_evidence'',
                     ''plastic_present''] \<and>
     distinct (risk_flags d) \<and> length (routing_notes d) = 4"
  using risk_flags_shape [of golden_high] by (simp add: golden_high_decision)

end
